theory Spec2Isabelle
  imports Main "HOL-Library.AList" "HOL-Library.Sublist" "HOL-Library.Word"
begin

section \<open>The build script \<^verbatim>\<open>setup.py\<close>\<close>

text \<open>
  The script is straight-line module-level Python followed by one call of
  \<^verbatim>\<open>setup(...)\<close>. Everything it reads from the machine it runs on is collected in the
  record \<open>build_env\<close>; its module-level variables are the record \<open>globals\<close>; every
  top-level statement is a function from globals to either a raised exception or the
  updated globals. A \<^verbatim>\<open>print\<close> call changes no variable but may raise, as any write to
  standard output may. The imports of lines 3 to 11 are taken to have succeeded (the
  script stops there otherwise, before any of the code below runs). The call of
  \<^verbatim>\<open>setup\<close> itself is setuptools' code; what it is handed is the final value of the
  globals.
\<close>

subsection \<open>Exceptions and the machine the script runs on\<close>

text \<open>
  \<open>py_exception\<close> holds the instances of Python's \<^verbatim>\<open>Exception\<close>: every constructor is
  a subclass of it, and \<open>ImportError\<close> stands for the class and its subclasses
  (\<^verbatim>\<open>ModuleNotFoundError\<close>). \<open>base_exception\<close> holds whatever a \<^verbatim>\<open>raise\<close> can raise:
  an \<^verbatim>\<open>Exception\<close>, or one of the two exceptions that derive from
  \<^verbatim>\<open>BaseException\<close> directly and that \<^verbatim>\<open>except Exception\<close> does not catch.
\<close>

datatype py_exception =
    ImportError
  | KeyError
  | OSError
  | ValueError
  | LookupError
  | UnicodeDecodeError
  | UnicodeEncodeError
  | OtherException string

datatype base_exception =
    Exception py_exception
  | SystemExit
  | KeyboardInterrupt

type_synonym byte = "8 word"

text \<open>
  What the script prints, one constructor for each \<^verbatim>\<open>print\<close> call with the values it
  formats: line 18 (the caught exception), line 63, line 64, line 65, line 83, line 86,
  line 93, and lines 114 and 118 (\<open>True\<close> for the Cython build).
\<close>

datatype message =
    Msg_exception_loading_cpuinfo py_exception
  | Msg_system string int
  | Msg_available_cpu_flags "string list"
  | Msg_environment "(string \<times> string) list"
  | Msg_target_architecture string
  | Msg_enabling_sse42
  | Msg_enabling_aes
  | Msg_building_extension bool

text \<open>
  \<open>cpuinfo_import\<close> and \<open>cython_import\<close> are the outcomes of the two guarded imports
  (\<open>None\<close>: the import succeeded). \<open>get_cpu_info\<close> is the outcome of the call
  \<^verbatim>\<open>get_cpu_info()\<close>: an exception, or the dictionary it returns (only its entry
  \<^verbatim>\<open>"flags"\<close>, a list of strings, is ever read). \<open>calcsize_P\<close> is
  \<^verbatim>\<open>struct.calcsize("P")\<close>, \<open>environ\<close> is \<^verbatim>\<open>os.environ\<close>, \<open>platform_machine\<close> is
  \<^verbatim>\<open>platform.machine()\<close>. \<open>print_raises\<close> is what printing a message to the standard
  output of the run raises (\<open>None\<close>: the message is written).
\<close>

record build_env =
  cpuinfo_import :: "base_exception option"
  get_cpu_info :: "base_exception + (string \<rightharpoonup> string list)"
  cython_import :: "base_exception option"
  os_name :: string
  calcsize_P :: int
  environ :: "(string \<times> string) list"
  platform_machine :: string
  print_raises :: "message \<Rightarrow> base_exception option"

record extension =
  ext_name :: string
  ext_sources :: "string list"
  ext_depends :: "string list"
  ext_language :: string
  extra_compile_args :: "string list"
  include_dirs :: "string list"
  define_macros :: "(string \<times> string) list"
  py_limited_api :: bool

text \<open>
  The module-level variables. \<open>cpu_queries\<close> is bookkeeping, not a Python variable: the
  number of calls of \<^verbatim>\<open>get_cpu_info()\<close> made so far. \<open>CPU_FLAGS\<close> is a list of strings;
  the empty dictionary of line 19 is the empty list (only \<^verbatim>\<open>in\<close> is ever applied to it).
\<close>

record globals =
  CPU_FLAGS :: "string list"
  USE_CYTHON :: bool
  SYSTEM :: string
  BITS :: int
  HAVE_SSE42 :: bool
  HAVE_AES :: bool
  CXXFLAGS :: "string list"
  TARGET_ARCH :: string
  CXXHEADERS :: "string list"
  CXXSOURCES :: "string list"
  CMDCLASS :: "(string \<times> string) list"
  SRC_EXT :: string
  EXT_MODULES :: "extension list"
  VERSION :: string
  URL :: string
  cpu_queries :: nat

definition unbound_globals :: globals where
  "unbound_globals =
     \<lparr>CPU_FLAGS = [], USE_CYTHON = False, SYSTEM = [], BITS = 0, HAVE_SSE42 = False,
      HAVE_AES = False, CXXFLAGS = [], TARGET_ARCH = [], CXXHEADERS = [], CXXSOURCES = [],
      CMDCLASS = [], SRC_EXT = [], EXT_MODULES = [], VERSION = [], URL = [],
      cpu_queries = 0\<rparr>"

subsection \<open>Lines 13 to 26: the guarded imports\<close>

text \<open>The body of the first \<^verbatim>\<open>try\<close>: the import, the call, the subscript.\<close>

definition load_cpu_flags :: "build_env \<Rightarrow> base_exception + string list" where
  "load_cpu_flags env =
     (case cpuinfo_import env of
        Some exc \<Rightarrow> Inl exc
      | None \<Rightarrow>
          (case get_cpu_info env of
             Inl exc \<Rightarrow> Inl exc
           | Inr info \<Rightarrow>
               (case info ''flags'' of
                  None \<Rightarrow> Inl (Exception KeyError)
                | Some flags \<Rightarrow> Inr flags)))"

text \<open>A \<^verbatim>\<open>print\<close> call: the globals stay as they are, or the exception it raises.\<close>

definition py_print :: "build_env \<Rightarrow> message \<Rightarrow> globals \<Rightarrow> base_exception + globals" where
  "py_print env msg g = (case print_raises env msg of None \<Rightarrow> Inr g | Some exc \<Rightarrow> Inl exc)"

text \<open>
  \<^verbatim>\<open>try: ... CPU_FLAGS = get_cpu_info()["flags"]
  except Exception as exc: print("exception loading cpuinfo", exc); CPU_FLAGS = {}\<close>:
  the handler catches the instances of \<^verbatim>\<open>Exception\<close> only, and prints before it
  assigns.
\<close>

definition stmt_CPU_FLAGS :: "build_env \<Rightarrow> globals \<Rightarrow> base_exception + globals" where
  "stmt_CPU_FLAGS env g =
     (let called = (if cpuinfo_import env = None then 1 else 0) in
      case load_cpu_flags env of
        Inr flags \<Rightarrow> Inr (g\<lparr>CPU_FLAGS := flags, cpu_queries := cpu_queries g + called\<rparr>)
      | Inl (Exception exc) \<Rightarrow>
          (case py_print env (Msg_exception_loading_cpuinfo exc) g of
             Inl raised \<Rightarrow> Inl raised
           | Inr g' \<Rightarrow> Inr (g'\<lparr>CPU_FLAGS := [], cpu_queries := cpu_queries g' + called\<rparr>))
      | Inl SystemExit \<Rightarrow> Inl SystemExit
      | Inl KeyboardInterrupt \<Rightarrow> Inl KeyboardInterrupt)"

text \<open>
  \<^verbatim>\<open>try: from Cython.Distutils import build_ext; USE_CYTHON = True
  except ImportError: USE_CYTHON = False\<close>: any other exception propagates.
\<close>

definition stmt_USE_CYTHON :: "build_env \<Rightarrow> globals \<Rightarrow> base_exception + globals" where
  "stmt_USE_CYTHON env g =
     (case cython_import env of
        None \<Rightarrow> Inr (g\<lparr>USE_CYTHON := True\<rparr>)
      | Some exc \<Rightarrow>
          if exc = Exception ImportError then Inr (g\<lparr>USE_CYTHON := False\<rparr>) else Inl exc)"

subsection \<open>Lines 40 to 53: \<^verbatim>\<open>get_system_bits\<close> and \<^verbatim>\<open>bdist_wheel_abi3.get_tag\<close>\<close>

definition get_system_bits :: "build_env \<Rightarrow> int" where
  "get_system_bits env = calcsize_P env * 8"

text \<open>
  \<open>super_get_tag\<close> is the triple \<^verbatim>\<open>super().get_tag()\<close> returned;
  \<^verbatim>\<open>python.startswith("cp")\<close> is \<open>prefix ''cp'' python\<close>.
\<close>

definition get_tag :: "string \<times> string \<times> string \<Rightarrow> string \<times> string \<times> string" where
  "get_tag super_get_tag =
     (case super_get_tag of
        (python, abi, plat) \<Rightarrow>
          if prefix ''cp'' python then (''cp36'', ''abi3'', plat) else (python, abi, plat))"

subsection \<open>Lines 56 to 97: the compile flags\<close>

definition stmt_SYSTEM :: "build_env \<Rightarrow> globals \<Rightarrow> base_exception + globals" where
  "stmt_SYSTEM env g = Inr (g\<lparr>SYSTEM := os_name env\<rparr>)"

definition stmt_BITS :: "build_env \<Rightarrow> globals \<Rightarrow> base_exception + globals" where
  "stmt_BITS env g = Inr (g\<lparr>BITS := get_system_bits env\<rparr>)"

definition stmt_HAVE_SSE42 :: "globals \<Rightarrow> base_exception + globals" where
  "stmt_HAVE_SSE42 g = Inr (g\<lparr>HAVE_SSE42 := (''sse4_2'' \<in> set (CPU_FLAGS g))\<rparr>)"

definition stmt_HAVE_AES :: "globals \<Rightarrow> base_exception + globals" where
  "stmt_HAVE_AES g = Inr (g\<lparr>HAVE_AES := (''aes'' \<in> set (CPU_FLAGS g))\<rparr>)"

definition stmt_CXXFLAGS :: "globals \<Rightarrow> base_exception + globals" where
  "stmt_CXXFLAGS g = Inr (g\<lparr>CXXFLAGS := []\<rparr>)"

text \<open>Lines 63 to 65.\<close>

definition stmt_print_system :: "build_env \<Rightarrow> globals \<Rightarrow> base_exception + globals" where
  "stmt_print_system env g = py_print env (Msg_system (SYSTEM g) (BITS g)) g"

definition stmt_print_cpu_flags :: "build_env \<Rightarrow> globals \<Rightarrow> base_exception + globals" where
  "stmt_print_cpu_flags env g = py_print env (Msg_available_cpu_flags (CPU_FLAGS g)) g"

definition stmt_print_environment :: "build_env \<Rightarrow> globals \<Rightarrow> base_exception + globals" where
  "stmt_print_environment env g = py_print env (Msg_environment (environ env)) g"

definition stmt_optimisation :: "globals \<Rightarrow> base_exception + globals" where
  "stmt_optimisation g =
     (if SYSTEM g = ''nt'' then Inr (g\<lparr>CXXFLAGS := CXXFLAGS g @ [''/O2'']\<rparr>)
      else Inr (g\<lparr>CXXFLAGS := CXXFLAGS g @
                  [''-O3'', ''-Wno-unused-value'', ''-Wno-unused-function'']\<rparr>))"

text \<open>\<^verbatim>\<open>os.environ.get("AUDITWHEEL_ARCH", platform.machine())\<close>\<close>

definition stmt_TARGET_ARCH :: "build_env \<Rightarrow> globals \<Rightarrow> base_exception + globals" where
  "stmt_TARGET_ARCH env g =
     Inr (g\<lparr>TARGET_ARCH :=
            (case map_of (environ env) ''AUDITWHEEL_ARCH'' of
               Some arch \<Rightarrow> arch
             | None \<Rightarrow> platform_machine env)\<rparr>)"

definition stmt_print_target_arch :: "build_env \<Rightarrow> globals \<Rightarrow> base_exception + globals" where
  "stmt_print_target_arch env g = py_print env (Msg_target_architecture (TARGET_ARCH g)) g"

definition stmt_enable_sse42 :: "build_env \<Rightarrow> globals \<Rightarrow> base_exception + globals" where
  "stmt_enable_sse42 env g =
     (if HAVE_SSE42 g \<and> TARGET_ARCH g = ''x86_64'' \<and> BITS g = 64 then
        case py_print env Msg_enabling_sse42 g of
          Inl raised \<Rightarrow> Inl raised
        | Inr g' \<Rightarrow>
            if SYSTEM g' = ''nt'' then Inr (g'\<lparr>CXXFLAGS := CXXFLAGS g' @ [''/D__SSE4_2__'']\<rparr>)
            else Inr (g'\<lparr>CXXFLAGS := CXXFLAGS g' @ [''-msse4.2'']\<rparr>)
      else Inr g)"

definition stmt_enable_aes :: "build_env \<Rightarrow> globals \<Rightarrow> base_exception + globals" where
  "stmt_enable_aes env g =
     (if HAVE_AES g \<and> TARGET_ARCH g = ''x86_64'' \<and> BITS g = 64 then
        case py_print env Msg_enabling_aes g of
          Inl raised \<Rightarrow> Inl raised
        | Inr g' \<Rightarrow>
            if SYSTEM g' = ''nt'' then Inr (g'\<lparr>CXXFLAGS := CXXFLAGS g' @ [''/D__AES__'']\<rparr>)
            else Inr (g'\<lparr>CXXFLAGS := CXXFLAGS g' @ [''-maes'']\<rparr>)
      else Inr g)"

subsection \<open>Lines 99 to 135: sources, command classes, the extension module\<close>

definition stmt_CXXHEADERS :: "globals \<Rightarrow> base_exception + globals" where
  "stmt_CXXHEADERS g =
     Inr (g\<lparr>CXXHEADERS :=
            [''src/metro.h'', ''src/metrohash.h'', ''src/metrohash128.h'',
             ''src/metrohash128crc.h'', ''src/metrohash64.h'', ''src/platform.h'']\<rparr>)"

definition stmt_CXXSOURCES :: "globals \<Rightarrow> base_exception + globals" where
  "stmt_CXXSOURCES g =
     Inr (g\<lparr>CXXSOURCES := [''src/metrohash64.cc'', ''src/metrohash128.cc'']\<rparr>)"

definition stmt_CMDCLASS :: "globals \<Rightarrow> base_exception + globals" where
  "stmt_CMDCLASS g = Inr (g\<lparr>CMDCLASS := [(''bdist_wheel'', ''bdist_wheel_abi3'')]\<rparr>)"

definition stmt_use_cython :: "build_env \<Rightarrow> globals \<Rightarrow> base_exception + globals" where
  "stmt_use_cython env g =
     (if USE_CYTHON g then
        case py_print env (Msg_building_extension True) g of
          Inl raised \<Rightarrow> Inl raised
        | Inr g' \<Rightarrow>
            Inr (g'\<lparr>CMDCLASS := AList.update ''build_ext'' ''build_ext'' (CMDCLASS g'),
                    SRC_EXT := ''.pyx''\<rparr>)
      else
        case py_print env (Msg_building_extension False) g of
          Inl raised \<Rightarrow> Inl raised
        | Inr g' \<Rightarrow> Inr (g'\<lparr>SRC_EXT := ''.cpp''\<rparr>))"

definition stmt_EXT_MODULES :: "globals \<Rightarrow> base_exception + globals" where
  "stmt_EXT_MODULES g =
     Inr (g\<lparr>EXT_MODULES :=
            [\<lparr>ext_name = ''metrohash'',
              ext_sources = CXXSOURCES g @ [''src/metrohash'' @ SRC_EXT g],
              ext_depends = CXXHEADERS g,
              ext_language = ''c++'',
              extra_compile_args = CXXFLAGS g,
              include_dirs = [''src''],
              define_macros = [(''Py_LIMITED_API'', ''0x03060000'')],
              py_limited_api = True\<rparr>]\<rparr>)"

definition stmt_VERSION :: "globals \<Rightarrow> base_exception + globals" where
  "stmt_VERSION g = Inr (g\<lparr>VERSION := ''0.3.4''\<rparr>)"

definition stmt_URL :: "globals \<Rightarrow> base_exception + globals" where
  "stmt_URL g = Inr (g\<lparr>URL := ''https://github.com/escherba/python-metrohash''\<rparr>)"

subsection \<open>The script as a whole\<close>

text \<open>Statements run in order; the first exception that is not caught ends the run.\<close>

fun run_stmts :: "('s \<Rightarrow> 'e + 's) list \<Rightarrow> 's \<Rightarrow> 'e + 's" where
  "run_stmts [] g = Inr g"
| "run_stmts (stmt # stmts) g =
     (case stmt g of Inl exc \<Rightarrow> Inl exc | Inr g' \<Rightarrow> run_stmts stmts g')"

definition setup_script :: "build_env \<Rightarrow> (globals \<Rightarrow> base_exception + globals) list" where
  "setup_script env =
     [stmt_CPU_FLAGS env, stmt_USE_CYTHON env, stmt_SYSTEM env, stmt_BITS env,
      stmt_HAVE_SSE42, stmt_HAVE_AES, stmt_CXXFLAGS, stmt_print_system env,
      stmt_print_cpu_flags env, stmt_print_environment env, stmt_optimisation,
      stmt_TARGET_ARCH env, stmt_print_target_arch env, stmt_enable_sse42 env,
      stmt_enable_aes env, stmt_CXXHEADERS, stmt_CXXSOURCES, stmt_CMDCLASS,
      stmt_use_cython env, stmt_EXT_MODULES, stmt_VERSION, stmt_URL]"

definition run_setup :: "build_env \<Rightarrow> base_exception + globals" where
  "run_setup env = run_stmts (setup_script env) unbound_globals"

subsection \<open>Lines 138 to 147: \<^verbatim>\<open>get_long_description\<close>\<close>

text \<open>
  What the function reads from its surroundings: \<open>script_dir\<close> is
  \<^verbatim>\<open>os.path.dirname(__file__)\<close>, \<open>path_join\<close> is \<^verbatim>\<open>os.path.join\<close> on two strings,
  \<open>open_rb\<close> is \<^verbatim>\<open>open(fname, "rb")\<close>, which raises or gives a file whose
  \<^verbatim>\<open>read()\<close> raises or gives bytes, and \<open>bytes_decode\<close> is \<^verbatim>\<open>bytes.decode\<close> with the
  encoding's name first. What these built-ins raise (\<^verbatim>\<open>OSError\<close>, \<^verbatim>\<open>ValueError\<close>,
  \<^verbatim>\<open>LookupError\<close>, \<^verbatim>\<open>UnicodeDecodeError\<close>) is an instance of \<^verbatim>\<open>Exception\<close>.
\<close>

record file_env =
  script_dir :: string
  path_join :: "string \<Rightarrow> string \<Rightarrow> string"
  open_rb :: "string \<Rightarrow> py_exception + (py_exception + byte list)"
  bytes_decode :: "string \<Rightarrow> byte list \<Rightarrow> py_exception + string"

text \<open>The triple-quoted default: two newlines and four blanks.\<close>

definition long_desc_default :: string where
  "long_desc_default = [CHR 0x0A, CHR 0x0A] @ ''    ''"

text \<open>
  \<^verbatim>\<open>try: with open(fname, "rb") as fh: return fh.read().decode(encoding)
  except Exception: return _long_desc\<close>
\<close>

definition get_long_description :: "file_env \<Rightarrow> string \<Rightarrow> string \<Rightarrow> base_exception + string" where
  "get_long_description fs relpath encoding =
     (let fname = path_join fs (script_dir fs) relpath in
      case open_rb fs fname of
        Inl exc \<Rightarrow> Inr long_desc_default
      | Inr fh \<Rightarrow>
          (case fh of
             Inl exc \<Rightarrow> Inr long_desc_default
           | Inr content \<Rightarrow>
               (case bytes_decode fs encoding content of
                  Inl exc \<Rightarrow> Inr long_desc_default
                | Inr decoded \<Rightarrow> Inr decoded)))"

section \<open>The hashing engine the script builds\<close>

text \<open>
  The build script only names the engine's sources (\<open>CXXSOURCES\<close>, \<open>EXT_MODULES\<close>: C++
  files and a Cython binding). The engine's streaming state machine is therefore written
  down from sections 3, 4 and 6 of the specification. The mixing constants, the block
  mixer and the tail formulas are left open there (section 9) and are parameters of the
  model: every result below holds for each choice of them.
\<close>

type_synonym u64 = "64 word"

text \<open>Modelled from the spec: the three digest families of sections 2 and 4.\<close>

datatype variant = Hash64 | Hash128 | Hash128Crc

text \<open>Modelled from the spec: the internal mixing path an engine is built with (3 (d)).\<close>

datatype mixing_path = Software | Accelerated

text \<open>Modelled from the spec: the states \<^verbatim>\<open>Empty\<close>, \<^verbatim>\<open>Accumulating\<close>, \<^verbatim>\<open>Finalized\<close> of 4.2.\<close>

datatype engine_phase = Empty | Accumulating | Finalized

text \<open>Modelled from the spec: the misuse errors of section 7.\<close>

datatype misuse = UpdateAfterFinalize | FinalizeTwice

text \<open>
  Modelled from the spec: the algorithm-defined parts of a variant, which the engine's
  sources would fix. \<open>seed_lanes\<close> seeds the accumulator lanes (4.2, 4.3), \<open>mix_block\<close>
  absorbs one 32-byte block into the lanes, \<open>mix_tail\<close> folds the lanes, the residual
  bytes and the total length into the digest words (one word for 8 bytes, two for 16).
\<close>

record mixing =
  seed_lanes :: "variant \<Rightarrow> u64 \<Rightarrow> u64 list"
  mix_block :: "variant \<Rightarrow> mixing_path \<Rightarrow> u64 list \<Rightarrow> byte list \<Rightarrow> u64 list"
  mix_tail :: "variant \<Rightarrow> mixing_path \<Rightarrow> u64 list \<Rightarrow> byte list \<Rightarrow> nat \<Rightarrow> u64 list"

text \<open>
  Modelled from the spec: the engine state of section 3, (a) the lanes, (b) the residual
  buffer, (c) the running total length, (d) the chosen mixing path, with the variant and
  the state of 4.2.
\<close>

record engine =
  variant_of :: variant
  path :: mixing_path
  lanes :: "u64 list"
  residual :: "byte list"
  total_length :: nat
  phase :: engine_phase

text \<open>Modelled from the spec: a block is 32 bytes for every variant (section 3).\<close>

definition block_size :: nat where
  "block_size = 32"


text \<open>
  Modelled from the spec: the Feature Dispatcher of 4.5; the accelerated path is chosen
  only for the accelerated family and only when the instruction is present.
\<close>

definition select_path :: "bool \<Rightarrow> variant \<Rightarrow> mixing_path" where
  "select_path crc_present v =
     (if v = Hash128Crc \<and> crc_present then Accelerated else Software)"

text \<open>Modelled from the spec: construction, \<^verbatim>\<open>(seed, variant) -> Engine\<close> (section 6).\<close>

definition construct :: "mixing \<Rightarrow> bool \<Rightarrow> u64 \<Rightarrow> variant \<Rightarrow> engine" where
  "construct m crc_present seed v =
     \<lparr>variant_of = v, path = select_path crc_present v, lanes = seed_lanes m v seed,
      residual = [], total_length = 0, phase = Empty\<rparr>"

text \<open>
  Modelled from the spec: every full block is consumed by the mixer; what is left, fewer
  bytes than a block, stays behind as the residual (4.2, Update).
\<close>

function absorb_blocks ::
  "(u64 list \<Rightarrow> byte list \<Rightarrow> u64 list) \<Rightarrow> u64 list \<Rightarrow> byte list \<Rightarrow> u64 list \<times> byte list" where
  "absorb_blocks mixer ls bs =
     (if block_size \<le> length bs
      then absorb_blocks mixer (mixer ls (take block_size bs)) (drop block_size bs)
      else (ls, bs))"
  by pat_completeness auto
termination
  by (relation "measure (\<lambda>(mixer, ls, bs). length bs)") (auto simp: block_size_def)

text \<open>
  Modelled from the spec: \<^verbatim>\<open>update(engine, byteChunk)\<close>, which fails only when called
  after finalization (section 6); the chunk is appended to the residual bytes and the
  full blocks of the result are absorbed.
\<close>

definition update :: "mixing \<Rightarrow> engine \<Rightarrow> byte list \<Rightarrow> misuse + engine" where
  "update m e chunk =
     (if phase e = Finalized then Inl UpdateAfterFinalize
      else
        (case absorb_blocks (mix_block m (variant_of e) (path e)) (lanes e)
                (residual e @ chunk) of
           (ls, r) \<Rightarrow>
             Inr (e\<lparr>lanes := ls, residual := r,
                    total_length := total_length e + length chunk,
                    phase := Accumulating\<rparr>)))"

text \<open>
  Modelled from the spec: \<^verbatim>\<open>finalize(engine) -> digest\<close>; the engine becomes
  \<^verbatim>\<open>Finalized\<close>, and finalizing again without a reset is the misuse of section 7.
\<close>

definition finalize :: "mixing \<Rightarrow> engine \<Rightarrow> misuse + (u64 list \<times> engine)" where
  "finalize m e =
     (if phase e = Finalized then Inl FinalizeTwice
      else Inr (mix_tail m (variant_of e) (path e) (lanes e) (residual e) (total_length e),
                e\<lparr>phase := Finalized\<rparr>))"

text \<open>
  Modelled from the spec: \<^verbatim>\<open>reset(engine, newSeed)\<close> returns the engine to
  \<^verbatim>\<open>Empty\<close> (section 6); variant and mixing path stay as constructed.
\<close>

definition reset :: "mixing \<Rightarrow> engine \<Rightarrow> u64 \<Rightarrow> engine" where
  "reset m e new_seed =
     e\<lparr>lanes := seed_lanes m (variant_of e) new_seed, residual := [], total_length := 0,
       phase := Empty\<rparr>"

text \<open>Modelled from the spec: chunks fed by sequential \<^verbatim>\<open>update\<close> calls (section 8).\<close>

fun feed :: "mixing \<Rightarrow> engine \<Rightarrow> byte list list \<Rightarrow> misuse + engine" where
  "feed m e [] = Inr e"
| "feed m e (chunk # chunks) =
     (case update m e chunk of Inl err \<Rightarrow> Inl err | Inr e' \<Rightarrow> feed m e' chunks)"

text \<open>Modelled from the spec: the digest that finalizing the outcome of the feeding gives.\<close>

definition digest_of :: "mixing \<Rightarrow> misuse + engine \<Rightarrow> misuse + u64 list" where
  "digest_of m r =
     (case r of
        Inl err \<Rightarrow> Inl err
      | Inr e \<Rightarrow> (case finalize m e of Inl err \<Rightarrow> Inl err | Inr (d, e') \<Rightarrow> Inr d))"

text \<open>
  Modelled from the spec: the one-shot \<^verbatim>\<open>hash(bytes, seed, variant)\<close>, construct, update,
  finalize (section 6).
\<close>

definition hash :: "mixing \<Rightarrow> bool \<Rightarrow> byte list \<Rightarrow> u64 \<Rightarrow> variant \<Rightarrow> misuse + u64 list" where
  "hash m crc_present bs seed v = digest_of m (update m (construct m crc_present seed v) bs)"

section \<open>Sample inputs\<close>

text \<open>A 64-bit x86 builder whose CPU reports SSE4.2 and AES; Cython is installed.\<close>

definition x86_64_builder :: build_env where
  "x86_64_builder =
     \<lparr>cpuinfo_import = None,
      get_cpu_info = Inr [''flags'' \<mapsto> [''fpu'', ''sse2'', ''sse4_2'', ''aes'']],
      cython_import = None, os_name = ''posix'', calcsize_P = 8,
      environ = [(''AUDITWHEEL_ARCH'', ''x86_64'')], platform_machine = ''x86_64'',
      print_raises = (\<lambda>msg. None)\<rparr>"

text \<open>The same builder with no \<^verbatim>\<open>cpuinfo\<close> package and no Cython.\<close>

definition builder_without_cpuinfo :: build_env where
  "builder_without_cpuinfo =
     \<lparr>cpuinfo_import = Some (Exception ImportError),
      get_cpu_info = Inr [''flags'' \<mapsto> [''fpu'', ''sse2'', ''sse4_2'', ''aes'']],
      cython_import = Some (Exception ImportError), os_name = ''posix'', calcsize_P = 8,
      environ = [(''AUDITWHEEL_ARCH'', ''x86_64'')], platform_machine = ''x86_64'',
      print_raises = (\<lambda>msg. None)\<rparr>"

text \<open>The same builder with a \<^verbatim>\<open>get_cpu_info\<close> that ends in \<^verbatim>\<open>sys.exit\<close>.\<close>

definition builder_cpuinfo_exits :: build_env where
  "builder_cpuinfo_exits =
     \<lparr>cpuinfo_import = None, get_cpu_info = Inl SystemExit,
      cython_import = None, os_name = ''posix'', calcsize_P = 8,
      environ = [(''AUDITWHEEL_ARCH'', ''x86_64'')], platform_machine = ''x86_64'',
      print_raises = (\<lambda>msg. None)\<rparr>"

text \<open>
  The builder without \<^verbatim>\<open>cpuinfo\<close>, run with its standard output closed: every
  \<^verbatim>\<open>print\<close> raises \<^verbatim>\<open>ValueError\<close>.
\<close>

definition builder_closed_stdout :: build_env where
  "builder_closed_stdout =
     \<lparr>cpuinfo_import = Some (Exception ImportError),
      get_cpu_info = Inr [''flags'' \<mapsto> [''fpu'', ''sse2'', ''sse4_2'', ''aes'']],
      cython_import = None, os_name = ''posix'', calcsize_P = 8,
      environ = [(''AUDITWHEEL_ARCH'', ''x86_64'')], platform_machine = ''x86_64'',
      print_raises = (\<lambda>msg. Some (Exception ValueError))\<rparr>"

text \<open>A 32-bit build for i686 run on hardware that reports SSE4.2 and AES.\<close>

definition i686_cross_build :: build_env where
  "i686_cross_build =
     \<lparr>cpuinfo_import = None,
      get_cpu_info = Inr [''flags'' \<mapsto> [''fpu'', ''sse2'', ''sse4_2'', ''aes'']],
      cython_import = None, os_name = ''posix'', calcsize_P = 4,
      environ = [(''AUDITWHEEL_ARCH'', ''i686'')], platform_machine = ''x86_64'',
      print_raises = (\<lambda>msg. None)\<rparr>"

text \<open>Globals as they stand when line 85 is reached on the builder.\<close>

definition globals_at_line_85 :: globals where
  "globals_at_line_85 =
     unbound_globals\<lparr>CPU_FLAGS := [''fpu'', ''sse2'', ''sse4_2'', ''aes''], USE_CYTHON := True,
       SYSTEM := ''posix'', BITS := 64, HAVE_SSE42 := True, HAVE_AES := True,
       CXXFLAGS := [''-O3'', ''-Wno-unused-value'', ''-Wno-unused-function''],
       TARGET_ARCH := ''x86_64'', cpu_queries := 1\<rparr>"

text \<open>
  A package directory with a two-byte \<^verbatim>\<open>README.md\<close>, a \<^verbatim>\<open>LICENSE\<close> that is not valid
  UTF-8 and a file that opens but cannot be read; only the codec \<^verbatim>\<open>utf-8\<close> is known.
\<close>

definition package_dir :: file_env where
  "package_dir =
     \<lparr>script_dir = ''/pkg'',
      path_join = (\<lambda>a b. a @ ''/'' @ b),
      open_rb = (\<lambda>fname.
        if fname = ''/pkg/README.md'' then Inr (Inr [0x68, 0x69])
        else if fname = ''/pkg/LICENSE'' then Inr (Inr [0xFF])
        else if fname = ''/pkg/locked'' then Inr (Inl OSError)
        else Inl OSError),
      bytes_decode = (\<lambda>encoding content.
        if encoding \<noteq> ''utf-8'' then Inl LookupError
        else if content = [0x68, 0x69] then Inr ''hi''
        else Inl UnicodeDecodeError)\<rparr>"

text \<open>A mixing that counts blocks, enough to run the state machine on.\<close>

definition counting_mixing :: mixing where
  "counting_mixing =
     \<lparr>seed_lanes = (\<lambda>v seed. [seed]),
      mix_block = (\<lambda>v p ls block. map (\<lambda>l. l + 1) ls),
      mix_tail = (\<lambda>v p ls tail n. ls)\<rparr>"

section \<open>Properties of the build script\<close>

subsection \<open>What a run of the script computes\<close>

text \<open>
  A run is evaluated statement by statement: each rule below says when the first
  statement of a list completes and with which globals the rest is run.
\<close>

lemma if_Inl_eq_Inr:
  "((if ok then r else Inl raised) = Inr g) = (ok \<and> r = Inr g)"
  by simp

lemma run_plain:
  "stmt g = Inr g' \<Longrightarrow> run_stmts (stmt # stmts) g = run_stmts stmts g'"
  by simp

lemma run_CPU_FLAGS:
  "run_stmts (stmt_CPU_FLAGS env # stmts) g =
     (if (case load_cpu_flags env of
            Inr flags \<Rightarrow> True
          | Inl raised \<Rightarrow>
              (case raised of
                 Exception exc \<Rightarrow> print_raises env (Msg_exception_loading_cpuinfo exc) = None
               | SystemExit \<Rightarrow> False
               | KeyboardInterrupt \<Rightarrow> False))
      then run_stmts stmts
             (g\<lparr>CPU_FLAGS := (case load_cpu_flags env of Inr flags \<Rightarrow> flags | Inl raised \<Rightarrow> []),
                cpu_queries := cpu_queries g + (if cpuinfo_import env = None then 1 else 0)\<rparr>)
      else Inl (case load_cpu_flags env of
                  Inl (Exception exc) \<Rightarrow>
                    the (print_raises env (Msg_exception_loading_cpuinfo exc))
                | Inl raised \<Rightarrow> raised))"
  by (simp add: stmt_CPU_FLAGS_def py_print_def Let_def
        split: sum.splits base_exception.splits option.splits)

lemma run_USE_CYTHON:
  "run_stmts (stmt_USE_CYTHON env # stmts) g =
     (if cython_import env = None \<or> cython_import env = Some (Exception ImportError)
      then run_stmts stmts (g\<lparr>USE_CYTHON := (cython_import env = None)\<rparr>)
      else Inl (the (cython_import env)))"
  by (auto simp: stmt_USE_CYTHON_def split: option.splits)

lemma run_print_system:
  "run_stmts (stmt_print_system env # stmts) g =
     (if print_raises env (Msg_system (SYSTEM g) (BITS g)) = None then run_stmts stmts g
      else Inl (the (print_raises env (Msg_system (SYSTEM g) (BITS g)))))"
  by (simp add: stmt_print_system_def py_print_def split: option.splits)

lemma run_print_cpu_flags:
  "run_stmts (stmt_print_cpu_flags env # stmts) g =
     (if print_raises env (Msg_available_cpu_flags (CPU_FLAGS g)) = None
      then run_stmts stmts g
      else Inl (the (print_raises env (Msg_available_cpu_flags (CPU_FLAGS g)))))"
  by (simp add: stmt_print_cpu_flags_def py_print_def split: option.splits)

lemma run_print_environment:
  "run_stmts (stmt_print_environment env # stmts) g =
     (if print_raises env (Msg_environment (environ env)) = None then run_stmts stmts g
      else Inl (the (print_raises env (Msg_environment (environ env)))))"
  by (simp add: stmt_print_environment_def py_print_def split: option.splits)

lemma run_print_target_arch:
  "run_stmts (stmt_print_target_arch env # stmts) g =
     (if print_raises env (Msg_target_architecture (TARGET_ARCH g)) = None
      then run_stmts stmts g
      else Inl (the (print_raises env (Msg_target_architecture (TARGET_ARCH g)))))"
  by (simp add: stmt_print_target_arch_def py_print_def split: option.splits)

lemma run_optimisation:
  "run_stmts (stmt_optimisation # stmts) g =
     run_stmts stmts
       (g\<lparr>CXXFLAGS := CXXFLAGS g @
            (if SYSTEM g = ''nt'' then [''/O2'']
             else [''-O3'', ''-Wno-unused-value'', ''-Wno-unused-function''])\<rparr>)"
  by (simp add: stmt_optimisation_def)

lemma run_enable_sse42:
  "run_stmts (stmt_enable_sse42 env # stmts) g =
     (if HAVE_SSE42 g \<and> TARGET_ARCH g = ''x86_64'' \<and> BITS g = 64
         \<longrightarrow> print_raises env Msg_enabling_sse42 = None
      then run_stmts stmts
             (g\<lparr>CXXFLAGS := CXXFLAGS g @
                  (if HAVE_SSE42 g \<and> TARGET_ARCH g = ''x86_64'' \<and> BITS g = 64
                   then [if SYSTEM g = ''nt'' then ''/D__SSE4_2__'' else ''-msse4.2'']
                   else [])\<rparr>)
      else Inl (the (print_raises env Msg_enabling_sse42)))"
  by (auto simp: stmt_enable_sse42_def py_print_def split: option.splits)

lemma run_enable_aes:
  "run_stmts (stmt_enable_aes env # stmts) g =
     (if HAVE_AES g \<and> TARGET_ARCH g = ''x86_64'' \<and> BITS g = 64
         \<longrightarrow> print_raises env Msg_enabling_aes = None
      then run_stmts stmts
             (g\<lparr>CXXFLAGS := CXXFLAGS g @
                  (if HAVE_AES g \<and> TARGET_ARCH g = ''x86_64'' \<and> BITS g = 64
                   then [if SYSTEM g = ''nt'' then ''/D__AES__'' else ''-maes'']
                   else [])\<rparr>)
      else Inl (the (print_raises env Msg_enabling_aes)))"
  by (auto simp: stmt_enable_aes_def py_print_def split: option.splits)

lemma run_use_cython:
  "run_stmts (stmt_use_cython env # stmts) g =
     (if print_raises env (Msg_building_extension (USE_CYTHON g)) = None
      then run_stmts stmts
             (g\<lparr>CMDCLASS := (if USE_CYTHON g
                               then AList.update ''build_ext'' ''build_ext'' (CMDCLASS g)
                               else CMDCLASS g),
                SRC_EXT := (if USE_CYTHON g then ''.pyx'' else ''.cpp'')\<rparr>)
      else Inl (the (print_raises env (Msg_building_extension (USE_CYTHON g)))))"
  by (auto simp: stmt_use_cython_def py_print_def split: option.splits)

lemmas run_rules = run_CPU_FLAGS run_USE_CYTHON run_print_system run_print_cpu_flags
  run_print_environment run_print_target_arch run_optimisation run_enable_sse42
  run_enable_aes run_use_cython

lemmas run_plain_rules = run_plain [OF stmt_SYSTEM_def] run_plain [OF stmt_BITS_def]
  run_plain [OF stmt_HAVE_SSE42_def] run_plain [OF stmt_HAVE_AES_def]
  run_plain [OF stmt_CXXFLAGS_def] run_plain [OF stmt_TARGET_ARCH_def]
  run_plain [OF stmt_CXXHEADERS_def] run_plain [OF stmt_CXXSOURCES_def]
  run_plain [OF stmt_CMDCLASS_def] run_plain [OF stmt_EXT_MODULES_def]
  run_plain [OF stmt_VERSION_def] run_plain [OF stmt_URL_def]

lemma run_setup_facts:
  assumes "run_setup env = Inr g"
  shows "CPU_FLAGS g = (case load_cpu_flags env of Inr fl \<Rightarrow> fl | Inl raised \<Rightarrow> [])
       \<and> cpu_queries g = (if cpuinfo_import env = None then 1 else 0)
       \<and> SYSTEM g = os_name env
       \<and> BITS g = calcsize_P env * 8
       \<and> TARGET_ARCH g = (case map_of (environ env) ''AUDITWHEEL_ARCH'' of
                            Some a \<Rightarrow> a | None \<Rightarrow> platform_machine env)
       \<and> HAVE_SSE42 g = (''sse4_2'' \<in> set (CPU_FLAGS g))
       \<and> HAVE_AES g = (''aes'' \<in> set (CPU_FLAGS g))
       \<and> map extra_compile_args (EXT_MODULES g) = [CXXFLAGS g]
       \<and> CXXFLAGS g =
           (if SYSTEM g = ''nt'' then [''/O2'']
            else [''-O3'', ''-Wno-unused-value'', ''-Wno-unused-function''])
           @ (if HAVE_SSE42 g \<and> TARGET_ARCH g = ''x86_64'' \<and> BITS g = 64
              then [if SYSTEM g = ''nt'' then ''/D__SSE4_2__'' else ''-msse4.2''] else [])
           @ (if HAVE_AES g \<and> TARGET_ARCH g = ''x86_64'' \<and> BITS g = 64
              then [if SYSTEM g = ''nt'' then ''/D__AES__'' else ''-maes''] else [])"
proof -
  from assms show ?thesis
    unfolding run_setup_def setup_script_def
    by (clarsimp simp: run_rules run_plain_rules unbound_globals_def if_Inl_eq_Inr
          get_system_bits_def simp del: run_stmts.simps(2))
qed

lemma run_setup_Inr:
  assumes "run_setup env = Inr g"
  shows "CPU_FLAGS g = (case load_cpu_flags env of Inr fl \<Rightarrow> fl | Inl raised \<Rightarrow> [])"
    and "cpu_queries g = (if cpuinfo_import env = None then 1 else 0)"
    and "SYSTEM g = os_name env"
    and "BITS g = calcsize_P env * 8"
    and "TARGET_ARCH g = (case map_of (environ env) ''AUDITWHEEL_ARCH'' of
                            Some a \<Rightarrow> a | None \<Rightarrow> platform_machine env)"
    and "HAVE_SSE42 g = (''sse4_2'' \<in> set (CPU_FLAGS g))"
    and "HAVE_AES g = (''aes'' \<in> set (CPU_FLAGS g))"
    and "map extra_compile_args (EXT_MODULES g) = [CXXFLAGS g]"
    and "CXXFLAGS g =
           (if SYSTEM g = ''nt'' then [''/O2'']
            else [''-O3'', ''-Wno-unused-value'', ''-Wno-unused-function''])
           @ (if HAVE_SSE42 g \<and> TARGET_ARCH g = ''x86_64'' \<and> BITS g = 64
              then [if SYSTEM g = ''nt'' then ''/D__SSE4_2__'' else ''-msse4.2''] else [])
           @ (if HAVE_AES g \<and> TARGET_ARCH g = ''x86_64'' \<and> BITS g = 64
              then [if SYSTEM g = ''nt'' then ''/D__AES__'' else ''-maes''] else [])"
  using run_setup_facts [OF assms] by blast+

lemma run_setup_completes:
  assumes "\<And>msg. print_raises env msg = None"
    and "cython_import env = None \<or> cython_import env = Some (Exception ImportError)"
    and "load_cpu_flags env \<noteq> Inl SystemExit"
    and "load_cpu_flags env \<noteq> Inl KeyboardInterrupt"
  shows "\<exists>g. run_setup env = Inr g"
proof -
  have caught: "(case load_cpu_flags env of
            Inr flags \<Rightarrow> True
          | Inl raised \<Rightarrow>
              (case raised of
                 Exception exc \<Rightarrow> print_raises env (Msg_exception_loading_cpuinfo exc) = None
               | SystemExit \<Rightarrow> False
               | KeyboardInterrupt \<Rightarrow> False))"
    using assms(1,3,4) by (simp split: sum.splits base_exception.splits)
  show ?thesis
    unfolding run_setup_def setup_script_def
    using caught assms(2)
    by (simp add: run_rules run_plain_rules assms(1) del: run_stmts.simps(2))
qed

subsection \<open>Where the acceleration flags come from\<close>

text \<open>
  The SSE4.2 and AES compile flags of a completed run are there exactly when the
  capability is set and the target is 64-bit x86, and then the capability query made
  while the script ran reported the instruction.
\<close>

lemma accel_flag_mem:
  assumes "run_setup env = Inr g"
  shows "(''-msse4.2'' \<in> set (CXXFLAGS g) \<or> ''/D__SSE4_2__'' \<in> set (CXXFLAGS g))
           = (HAVE_SSE42 g \<and> TARGET_ARCH g = ''x86_64'' \<and> BITS g = 64)"
    and "(''-maes'' \<in> set (CXXFLAGS g) \<or> ''/D__AES__'' \<in> set (CXXFLAGS g))
           = (HAVE_AES g \<and> TARGET_ARCH g = ''x86_64'' \<and> BITS g = 64)"
  unfolding run_setup_Inr(9) [OF assms] by simp_all

lemma acceleration_follows_build_host_cpu:
  assumes "run_setup env = Inr g"
  shows "((''-msse4.2'' \<in> set (CXXFLAGS g) \<or> ''/D__SSE4_2__'' \<in> set (CXXFLAGS g)) \<longrightarrow>
            (\<exists>flags. load_cpu_flags env = Inr flags \<and> ''sse4_2'' \<in> set flags))
       \<and> ((''-maes'' \<in> set (CXXFLAGS g) \<or> ''/D__AES__'' \<in> set (CXXFLAGS g)) \<longrightarrow>
            (\<exists>flags. load_cpu_flags env = Inr flags \<and> ''aes'' \<in> set flags))"
  using accel_flag_mem [OF assms] run_setup_Inr(1,6,7) [OF assms]
  by (cases "load_cpu_flags env") auto

text \<open>
  Claim C2, as the script has it. When the capability query raises an instance of
  \<^verbatim>\<open>Exception\<close> and the handler's \<^verbatim>\<open>print\<close> of it succeeds, the first statement completes
  with an empty \<open>CPU_FLAGS\<close> and the run goes on with the remaining statements from
  there; a run that completes has neither capability set and only the optimisation
  flags in \<open>CXXFLAGS\<close>.
\<close>

theorem cpu_query_exception_disables_acceleration:
  assumes "load_cpu_flags env = Inl (Exception exc)"
      and "print_raises env (Msg_exception_loading_cpuinfo exc) = None"
  shows "stmt_CPU_FLAGS env g
           = Inr (g\<lparr>CPU_FLAGS := [],
                    cpu_queries := cpu_queries g + (if cpuinfo_import env = None then 1 else 0)\<rparr>)
       \<and> run_setup env
           = run_stmts (tl (setup_script env))
               (unbound_globals\<lparr>CPU_FLAGS := [],
                  cpu_queries := (if cpuinfo_import env = None then 1 else 0)\<rparr>)
       \<and> (\<forall>gf. run_setup env = Inr gf \<longrightarrow>
             CPU_FLAGS gf = [] \<and> \<not> HAVE_SSE42 gf \<and> \<not> HAVE_AES gf
             \<and> CXXFLAGS gf = (if SYSTEM gf = ''nt'' then [''/O2'']
                              else [''-O3'', ''-Wno-unused-value'', ''-Wno-unused-function''])
             \<and> ''-msse4.2'' \<notin> set (CXXFLAGS gf) \<and> ''/D__SSE4_2__'' \<notin> set (CXXFLAGS gf)
             \<and> ''-maes'' \<notin> set (CXXFLAGS gf) \<and> ''/D__AES__'' \<notin> set (CXXFLAGS gf))"
proof (intro conjI allI impI)
  show stmt: "stmt_CPU_FLAGS env g
           = Inr (g\<lparr>CPU_FLAGS := [],
                    cpu_queries := cpu_queries g + (if cpuinfo_import env = None then 1 else 0)\<rparr>)"
    for g
    using assms by (simp add: stmt_CPU_FLAGS_def py_print_def Let_def)
  show "run_setup env
           = run_stmts (tl (setup_script env))
               (unbound_globals\<lparr>CPU_FLAGS := [],
                  cpu_queries := (if cpuinfo_import env = None then 1 else 0)\<rparr>)"
    unfolding run_setup_def setup_script_def list.sel run_plain [OF stmt]
    by (simp add: unbound_globals_def del: run_stmts.simps(2))
next
  fix gf assume run: "run_setup env = Inr gf"
  have cf: "CPU_FLAGS gf = []" using run_setup_Inr(1) [OF run] assms(1) by simp
  have s: "\<not> HAVE_SSE42 gf" and a: "\<not> HAVE_AES gf"
    using run_setup_Inr(6,7) [OF run] cf by simp_all
  have fl: "CXXFLAGS gf = (if SYSTEM gf = ''nt'' then [''/O2'']
                           else [''-O3'', ''-Wno-unused-value'', ''-Wno-unused-function''])"
    using run_setup_Inr(9) [OF run] s a by simp
  show "CPU_FLAGS gf = []" by (rule cf)
  show "\<not> HAVE_SSE42 gf" by (rule s)
  show "\<not> HAVE_AES gf" by (rule a)
  show "CXXFLAGS gf = (if SYSTEM gf = ''nt'' then [''/O2'']
                       else [''-O3'', ''-Wno-unused-value'', ''-Wno-unused-function''])"
    by (rule fl)
  show "''-msse4.2'' \<notin> set (CXXFLAGS gf)" using fl by simp
  show "''/D__SSE4_2__'' \<notin> set (CXXFLAGS gf)" using fl by simp
  show "''-maes'' \<notin> set (CXXFLAGS gf)" using fl by simp
  show "''/D__AES__'' \<notin> set (CXXFLAGS gf)" using fl by simp
qed

theorem cpu_query_exception_disables_acceleration_witness:
  "load_cpu_flags builder_without_cpuinfo = Inl (Exception ImportError)
   \<and> map_sum id CXXFLAGS (run_setup builder_without_cpuinfo)
       = Inr [''-O3'', ''-Wno-unused-value'', ''-Wno-unused-function'']"
proof -
  have q: "load_cpu_flags builder_without_cpuinfo = Inl (Exception ImportError)"
    by (simp add: load_cpu_flags_def builder_without_cpuinfo_def)
  have p: "print_raises builder_without_cpuinfo (Msg_exception_loading_cpuinfo ImportError)
             = None"
    by (simp add: builder_without_cpuinfo_def)
  obtain g where g: "run_setup builder_without_cpuinfo = Inr g"
    using run_setup_completes [of builder_without_cpuinfo] q
    by (auto simp: builder_without_cpuinfo_def)
  have s: "SYSTEM g = ''posix''"
    using run_setup_Inr(3) [OF g] by (simp add: builder_without_cpuinfo_def)
  from cpu_query_exception_disables_acceleration [OF q p, of unbound_globals] g
  have "CXXFLAGS g = (if SYSTEM g = ''nt'' then [''/O2'']
                      else [''-O3'', ''-Wno-unused-value'', ''-Wno-unused-function''])"
    by blast
  with s g q show ?thesis by simp
qed

text \<open>
  Claim C2 as stated fails: a query that ends in \<^verbatim>\<open>SystemExit\<close> is not caught by
  \<^verbatim>\<open>except Exception\<close> and ends the run; and when the query raises an \<^verbatim>\<open>ImportError\<close>
  while standard output is closed, the handler's \<^verbatim>\<open>print\<close> raises before \<open>CPU_FLAGS\<close> is
  assigned and the run ends with that \<^verbatim>\<open>ValueError\<close>.
\<close>

theorem cpu_query_exception_can_end_run:
  "load_cpu_flags builder_cpuinfo_exits = Inl SystemExit
   \<and> run_setup builder_cpuinfo_exits = Inl SystemExit
   \<and> load_cpu_flags builder_closed_stdout = Inl (Exception ImportError)
   \<and> run_setup builder_closed_stdout = Inl (Exception ValueError)"
proof -
  have 1: "load_cpu_flags builder_cpuinfo_exits = Inl SystemExit"
    by (simp add: load_cpu_flags_def builder_cpuinfo_exits_def)
  have 2: "run_setup builder_cpuinfo_exits = Inl SystemExit"
    unfolding run_setup_def setup_script_def
    by (simp add: run_CPU_FLAGS 1 del: run_stmts.simps(2))
  have 3: "load_cpu_flags builder_closed_stdout = Inl (Exception ImportError)"
    by (simp add: load_cpu_flags_def builder_closed_stdout_def)
  have 4: "run_setup builder_closed_stdout = Inl (Exception ValueError)"
    unfolding run_setup_def setup_script_def
    by (simp add: run_CPU_FLAGS 3 del: run_stmts.simps(2))
       (simp add: builder_closed_stdout_def)
  from 1 2 3 4 show ?thesis by simp
qed

text \<open>
  Claim C8. When \<open>TARGET_ARCH\<close> is not \<^verbatim>\<open>x86_64\<close> or \<open>BITS\<close> is not 64, neither guarded
  statement appends anything: \<open>CXXFLAGS\<close>, and so the extension's compile arguments, hold
  the optimisation flags only, whatever CPU flags were detected.
\<close>

theorem no_acceleration_off_x86_64:
  assumes "run_setup env = Inr g" and "TARGET_ARCH g \<noteq> ''x86_64'' \<or> BITS g \<noteq> 64"
  shows "''-msse4.2'' \<notin> set (CXXFLAGS g) \<and> ''-maes'' \<notin> set (CXXFLAGS g)
       \<and> ''/D__SSE4_2__'' \<notin> set (CXXFLAGS g) \<and> ''/D__AES__'' \<notin> set (CXXFLAGS g)
       \<and> CXXFLAGS g = (if SYSTEM g = ''nt'' then [''/O2'']
                       else [''-O3'', ''-Wno-unused-value'', ''-Wno-unused-function''])
       \<and> map extra_compile_args (EXT_MODULES g) = [CXXFLAGS g]
       \<and> stmt_enable_sse42 env g = Inr g \<and> stmt_enable_aes env g = Inr g"
proof -
  have fl: "CXXFLAGS g = (if SYSTEM g = ''nt'' then [''/O2'']
                       else [''-O3'', ''-Wno-unused-value'', ''-Wno-unused-function''])"
    using run_setup_Inr(9) [OF assms(1)] assms(2) by auto
  have st: "stmt_enable_sse42 env g = Inr g \<and> stmt_enable_aes env g = Inr g"
    using assms(2) by (auto simp: stmt_enable_sse42_def stmt_enable_aes_def)
  show ?thesis using fl st run_setup_Inr(8) [OF assms(1)] by simp
qed

theorem no_acceleration_off_x86_64_witness:
  "load_cpu_flags i686_cross_build = Inr [''fpu'', ''sse2'', ''sse4_2'', ''aes'']
   \<and> map_sum id TARGET_ARCH (run_setup i686_cross_build) = Inr ''i686''
   \<and> map_sum id BITS (run_setup i686_cross_build) = Inr 32
   \<and> map_sum id CXXFLAGS (run_setup i686_cross_build)
       = Inr [''-O3'', ''-Wno-unused-value'', ''-Wno-unused-function'']"
proof -
  have q: "load_cpu_flags i686_cross_build = Inr [''fpu'', ''sse2'', ''sse4_2'', ''aes'']"
    by (simp add: load_cpu_flags_def i686_cross_build_def)
  obtain g where g: "run_setup i686_cross_build = Inr g"
    using run_setup_completes [of i686_cross_build] q by (auto simp: i686_cross_build_def)
  have t: "TARGET_ARCH g = ''i686''" and b: "BITS g = 32" and s: "SYSTEM g = ''posix''"
    using run_setup_Inr(3,4,5) [OF g] by (simp_all add: i686_cross_build_def)
  have h: "TARGET_ARCH g \<noteq> ''x86_64'' \<or> BITS g \<noteq> 64" using t by simp
  from no_acceleration_off_x86_64 [OF g h] s t b g q show ?thesis by simp
qed

subsection \<open>Detection happens once\<close>

lemma script_frame:
  assumes "i < length (setup_script env)" and "(setup_script env ! i) g = Inr g'"
  shows "(i \<noteq> 0 \<longrightarrow> CPU_FLAGS g' = CPU_FLAGS g \<and> cpu_queries g' = cpu_queries g)
       \<and> (i \<noteq> 4 \<longrightarrow> HAVE_SSE42 g' = HAVE_SSE42 g)
       \<and> (i \<noteq> 5 \<longrightarrow> HAVE_AES g' = HAVE_AES g)"
  using assms unfolding setup_script_def
  by (auto simp: less_Suc_eq eval_nat_numeral stmt_CPU_FLAGS_def stmt_USE_CYTHON_def
        stmt_SYSTEM_def stmt_BITS_def stmt_HAVE_SSE42_def stmt_HAVE_AES_def stmt_CXXFLAGS_def
        stmt_print_system_def stmt_print_cpu_flags_def stmt_print_environment_def
        stmt_optimisation_def stmt_TARGET_ARCH_def stmt_print_target_arch_def
        stmt_enable_sse42_def stmt_enable_aes_def stmt_CXXHEADERS_def stmt_CXXSOURCES_def
        stmt_CMDCLASS_def stmt_use_cython_def stmt_EXT_MODULES_def stmt_VERSION_def
        stmt_URL_def py_print_def Let_def
        split: option.splits sum.splits base_exception.splits if_splits)

lemma script_writers:
  "setup_script env ! 0 = stmt_CPU_FLAGS env"
  "setup_script env ! 4 = stmt_HAVE_SSE42"
  "setup_script env ! 5 = stmt_HAVE_AES"
  "length (setup_script env) = 22"
  by (simp_all add: setup_script_def)

text \<open>
  Claim C3. Of the twenty-two statements of the script, the first is the only one that
  writes \<open>CPU_FLAGS\<close> or calls \<^verbatim>\<open>get_cpu_info()\<close>, the fifth the only one that writes
  \<open>HAVE_SSE42\<close>, the sixth the only one that writes \<open>HAVE_AES\<close>; every other statement
  leaves them as they are. At the end of a run the query has been made once (not at all
  when the package is missing) and both booleans are membership in \<open>CPU_FLAGS\<close>. The
  functions the script defines take and return no globals.
\<close>

theorem capability_detection_once:
  "length (setup_script env) = 22
   \<and> setup_script env ! 0 = stmt_CPU_FLAGS env
   \<and> setup_script env ! 4 = stmt_HAVE_SSE42
   \<and> setup_script env ! 5 = stmt_HAVE_AES
   \<and> (\<forall>i g g'. i < 22 \<and> (setup_script env ! i) g = Inr g' \<longrightarrow>
         (i \<noteq> 0 \<longrightarrow> CPU_FLAGS g' = CPU_FLAGS g \<and> cpu_queries g' = cpu_queries g)
         \<and> (i \<noteq> 4 \<longrightarrow> HAVE_SSE42 g' = HAVE_SSE42 g)
         \<and> (i \<noteq> 5 \<longrightarrow> HAVE_AES g' = HAVE_AES g))
   \<and> (\<forall>gf. run_setup env = Inr gf \<longrightarrow>
         cpu_queries gf = (if cpuinfo_import env = None then 1 else 0)
         \<and> CPU_FLAGS gf = (case load_cpu_flags env of Inr flags \<Rightarrow> flags | Inl exc \<Rightarrow> [])
         \<and> HAVE_SSE42 gf = (''sse4_2'' \<in> set (CPU_FLAGS gf))
         \<and> HAVE_AES gf = (''aes'' \<in> set (CPU_FLAGS gf)))"
proof -
  have frame: "\<forall>i g g'. i < 22 \<and> (setup_script env ! i) g = Inr g' \<longrightarrow>
         (i \<noteq> 0 \<longrightarrow> CPU_FLAGS g' = CPU_FLAGS g \<and> cpu_queries g' = cpu_queries g)
         \<and> (i \<noteq> 4 \<longrightarrow> HAVE_SSE42 g' = HAVE_SSE42 g)
         \<and> (i \<noteq> 5 \<longrightarrow> HAVE_AES g' = HAVE_AES g)"
    using script_frame [of _ env] script_writers(4) [of env] by metis
  have final: "\<forall>gf. run_setup env = Inr gf \<longrightarrow>
         cpu_queries gf = (if cpuinfo_import env = None then 1 else 0)
         \<and> CPU_FLAGS gf = (case load_cpu_flags env of Inr flags \<Rightarrow> flags | Inl exc \<Rightarrow> [])
         \<and> HAVE_SSE42 gf = (''sse4_2'' \<in> set (CPU_FLAGS gf))
         \<and> HAVE_AES gf = (''aes'' \<in> set (CPU_FLAGS gf))"
    using run_setup_Inr(1,2,6,7) by blast
  show ?thesis using frame final script_writers [of env] by blast
qed

theorem capability_detection_once_witness:
  "(setup_script x86_64_builder ! 13) globals_at_line_85
     = Inr (globals_at_line_85\<lparr>CXXFLAGS :=
         [''-O3'', ''-Wno-unused-value'', ''-Wno-unused-function'', ''-msse4.2'']\<rparr>)
   \<and> HAVE_SSE42 (globals_at_line_85\<lparr>CXXFLAGS :=
         [''-O3'', ''-Wno-unused-value'', ''-Wno-unused-function'', ''-msse4.2'']\<rparr>)
   \<and> map_sum id cpu_queries (run_setup x86_64_builder) = Inr 1
   \<and> map_sum id HAVE_SSE42 (run_setup x86_64_builder) = Inr True"
proof -
  let ?g' = "globals_at_line_85\<lparr>CXXFLAGS :=
         [''-O3'', ''-Wno-unused-value'', ''-Wno-unused-function'', ''-msse4.2'']\<rparr>"
  have step: "(setup_script x86_64_builder ! 13) globals_at_line_85 = Inr ?g'"
    by (simp add: setup_script_def stmt_enable_sse42_def py_print_def globals_at_line_85_def
        unbound_globals_def x86_64_builder_def)
  have before: "HAVE_SSE42 globals_at_line_85"
    by (simp add: globals_at_line_85_def)
  have q: "load_cpu_flags x86_64_builder = Inr [''fpu'', ''sse2'', ''sse4_2'', ''aes'']"
    by (simp add: load_cpu_flags_def x86_64_builder_def)
  obtain gf where gf: "run_setup x86_64_builder = Inr gf"
    using run_setup_completes [of x86_64_builder] q by (auto simp: x86_64_builder_def)
  have imp: "cpuinfo_import x86_64_builder = None" by (simp add: x86_64_builder_def)
  note once = capability_detection_once [of x86_64_builder]
  from once have fr: "\<And>i g g'. i < 22 \<Longrightarrow> (setup_script x86_64_builder ! i) g = Inr g'
      \<Longrightarrow> i \<noteq> 4 \<Longrightarrow> HAVE_SSE42 g' = HAVE_SSE42 g"
    by blast
  from fr [of 13, OF _ step] have "HAVE_SSE42 ?g' = HAVE_SSE42 globals_at_line_85"
    by simp
  moreover from once gf q imp have "cpu_queries gf = 1 \<and> HAVE_SSE42 gf"
    by simp
  ultimately show ?thesis using step before gf by simp
qed

subsection \<open>The helper functions\<close>

text \<open>
  Claim C7. \<^verbatim>\<open>get_long_description\<close> always returns a string and never raises: when
  the file named by the joined path opens, is read and its bytes decode, the result is
  the decoded text; when opening, reading or decoding raises, it is the built-in
  default.
\<close>

theorem get_long_description_contents_or_default:
  "(\<exists>result. get_long_description fs relpath encoding = Inr result)
   \<and> (\<forall>content decoded.
         open_rb fs (path_join fs (script_dir fs) relpath) = Inr (Inr content)
         \<and> bytes_decode fs encoding content = Inr decoded
         \<longrightarrow> get_long_description fs relpath encoding = Inr decoded)
   \<and> (\<forall>exc. open_rb fs (path_join fs (script_dir fs) relpath) = Inl exc
         \<longrightarrow> get_long_description fs relpath encoding = Inr long_desc_default)
   \<and> (\<forall>exc. open_rb fs (path_join fs (script_dir fs) relpath) = Inr (Inl exc)
         \<longrightarrow> get_long_description fs relpath encoding = Inr long_desc_default)
   \<and> (\<forall>content exc.
         open_rb fs (path_join fs (script_dir fs) relpath) = Inr (Inr content)
         \<and> bytes_decode fs encoding content = Inl exc
         \<longrightarrow> get_long_description fs relpath encoding = Inr long_desc_default)"
  by (auto simp: get_long_description_def Let_def split: sum.splits)

theorem get_long_description_contents_or_default_witness:
  "get_long_description package_dir ''README.md'' ''utf-8'' = Inr ''hi''
   \<and> get_long_description package_dir ''README.md'' ''utf-9'' = Inr long_desc_default
   \<and> get_long_description package_dir ''LICENSE'' ''utf-8'' = Inr long_desc_default
   \<and> get_long_description package_dir ''locked'' ''utf-8'' = Inr long_desc_default
   \<and> get_long_description package_dir ''missing.md'' ''utf-8'' = Inr long_desc_default"
proof -
  have join: "\<And>p. path_join package_dir (script_dir package_dir) p = ''/pkg/'' @ p"
    by (simp add: package_dir_def)
  have readme: "open_rb package_dir (''/pkg/'' @ ''README.md'') = Inr (Inr [0x68, 0x69])"
    and license: "open_rb package_dir (''/pkg/'' @ ''LICENSE'') = Inr (Inr [0xFF])"
    and locked: "open_rb package_dir (''/pkg/'' @ ''locked'') = Inr (Inl OSError)"
    and missing: "open_rb package_dir (''/pkg/'' @ ''missing.md'') = Inl OSError"
    by (simp_all add: package_dir_def)
  have d1: "bytes_decode package_dir ''utf-8'' [0x68, 0x69] = Inr ''hi''"
    and d2: "bytes_decode package_dir ''utf-9'' [0x68, 0x69] = Inl LookupError"
    and d3: "bytes_decode package_dir ''utf-8'' [0xFF] = Inl UnicodeDecodeError"
    by (simp_all add: package_dir_def)
  note t = get_long_description_contents_or_default [of package_dir, unfolded join]
  have "get_long_description package_dir ''README.md'' ''utf-8'' = Inr ''hi''"
    using t [of "''README.md''" "''utf-8''"] readme d1 by blast
  moreover have "get_long_description package_dir ''README.md'' ''utf-9''
      = Inr long_desc_default"
    using t [of "''README.md''" "''utf-9''"] readme d2 by blast
  moreover have "get_long_description package_dir ''LICENSE'' ''utf-8''
      = Inr long_desc_default"
    using t [of "''LICENSE''" "''utf-8''"] license d3 by blast
  moreover have "get_long_description package_dir ''locked'' ''utf-8''
      = Inr long_desc_default"
    using t [of "''locked''" "''utf-8''"] locked by blast
  moreover have "get_long_description package_dir ''missing.md'' ''utf-8''
      = Inr long_desc_default"
    using t [of "''missing.md''" "''utf-8''"] missing by blast
  ultimately show ?thesis by simp
qed

text \<open>
  Claim C9. \<^verbatim>\<open>get_system_bits()\<close> returns \<^verbatim>\<open>struct.calcsize("P") * 8\<close>: it is 64
  exactly when the pointer size is 8 bytes and 32 exactly when it is 4 bytes.
\<close>

theorem get_system_bits_pointer_width:
  "get_system_bits env = calcsize_P env * 8
   \<and> (get_system_bits env = 64) = (calcsize_P env = 8)
   \<and> (get_system_bits env = 32) = (calcsize_P env = 4)"
  unfolding get_system_bits_def by presburger

text \<open>
  Claim C10. \<^verbatim>\<open>get_tag\<close> returns \<^verbatim>\<open>("cp36", "abi3", plat)\<close> when the superclass's python
  tag starts with \<^verbatim>\<open>cp\<close>, and the superclass's triple unchanged otherwise.
\<close>

theorem get_tag_abi3:
  "(prefix ''cp'' python \<longrightarrow> get_tag (python, abi, plat) = (''cp36'', ''abi3'', plat))
   \<and> (\<not> prefix ''cp'' python \<longrightarrow> get_tag (python, abi, plat) = (python, abi, plat))"
  by (simp add: get_tag_def)

theorem get_tag_abi3_witness:
  "get_tag (''cp311'', ''cp311'', ''linux_x86_64'') = (''cp36'', ''abi3'', ''linux_x86_64'')
   \<and> get_tag (''pp39'', ''pypy39_pp73'', ''linux_x86_64'')
       = (''pp39'', ''pypy39_pp73'', ''linux_x86_64'')"
  using get_tag_abi3 [of "''cp311''" "''cp311''" "''linux_x86_64''"]
        get_tag_abi3 [of "''pp39''" "''pypy39_pp73''" "''linux_x86_64''"]
  by simp

section \<open>Properties of the hashing engine\<close>

declare absorb_blocks.simps [simp del]

lemma absorb_blocks_short:
  "length bs < block_size \<Longrightarrow> absorb_blocks mixer ls bs = (ls, bs)"
  by (subst absorb_blocks.simps) simp

lemma absorb_blocks_full:
  "block_size \<le> length bs \<Longrightarrow>
     absorb_blocks mixer ls bs
       = absorb_blocks mixer (mixer ls (take block_size bs)) (drop block_size bs)"
  by (subst absorb_blocks.simps) simp

lemma absorb_blocks_residual_short:
  "length (snd (absorb_blocks mixer ls bs)) < block_size"
proof (induction mixer ls bs rule: absorb_blocks.induct)
  case (1 mixer ls bs)
  show ?case
  proof (cases "block_size \<le> length bs")
    case True
    with 1 show ?thesis by (simp add: absorb_blocks_full)
  next
    case False
    then show ?thesis by (simp add: absorb_blocks_short)
  qed
qed

lemma absorb_blocks_append:
  "absorb_blocks mixer ls (bs @ cs)
     = (case absorb_blocks mixer ls bs of (ls', r) \<Rightarrow> absorb_blocks mixer ls' (r @ cs))"
proof (induction mixer ls bs rule: absorb_blocks.induct)
  case (1 mixer ls bs)
  show ?case
  proof (cases "block_size \<le> length bs")
    case True
    then have "absorb_blocks mixer ls (bs @ cs)
        = absorb_blocks mixer (mixer ls (take block_size bs)) (drop block_size bs @ cs)"
      by (simp add: absorb_blocks_full [of "bs @ cs"])
    also have "\<dots> = (case absorb_blocks mixer (mixer ls (take block_size bs))
                          (drop block_size bs) of
                      (ls', r) \<Rightarrow> absorb_blocks mixer ls' (r @ cs))"
      using 1 True by simp
    also have "\<dots> = (case absorb_blocks mixer ls bs of
                      (ls', r) \<Rightarrow> absorb_blocks mixer ls' (r @ cs))"
      using True by (simp add: absorb_blocks_full [of bs])
    finally show ?thesis .
  next
    case False
    then show ?thesis by (simp add: absorb_blocks_short)
  qed
qed

lemma update_not_finalized:
  "phase e \<noteq> Finalized \<Longrightarrow>
     update m e chunk
       = Inr (e\<lparr>lanes := fst (absorb_blocks (mix_block m (variant_of e) (path e)) (lanes e)
                               (residual e @ chunk)),
               residual := snd (absorb_blocks (mix_block m (variant_of e) (path e)) (lanes e)
                               (residual e @ chunk)),
               total_length := total_length e + length chunk,
               phase := Accumulating\<rparr>)"
  by (simp add: update_def split: prod.splits)

lemma update_update:
  assumes "phase e \<noteq> Finalized" and "update m e a = Inr e1"
  shows "update m e1 b = update m e (a @ b)"
proof -
  let ?f = "mix_block m (variant_of e) (path e)"
  have e1: "e1 = e\<lparr>lanes := fst (absorb_blocks ?f (lanes e) (residual e @ a)),
                   residual := snd (absorb_blocks ?f (lanes e) (residual e @ a)),
                   total_length := total_length e + length a,
                   phase := Accumulating\<rparr>"
    using assms by (simp add: update_not_finalized)
  have ab: "absorb_blocks ?f (lanes e) (residual e @ a @ b)
      = absorb_blocks ?f (fst (absorb_blocks ?f (lanes e) (residual e @ a)))
          (snd (absorb_blocks ?f (lanes e) (residual e @ a)) @ b)"
    using absorb_blocks_append [of ?f "lanes e" "residual e @ a" b]
    by (simp add: case_prod_beta)
  have p1: "phase e1 \<noteq> Finalized" using e1 by simp
  show ?thesis
    unfolding update_not_finalized [OF p1] update_not_finalized [OF assms(1)] ab
    by (simp add: e1 add.assoc)
qed

lemma update_keeps_wellformed:
  assumes "update m e a = Inr e1"
  shows "phase e1 = Accumulating \<and> length (residual e1) < block_size"
  using assms absorb_blocks_residual_short
  by (auto simp: update_def split: if_splits prod.splits) (metis snd_conv)

lemma feed_nonempty:
  assumes "phase e \<noteq> Finalized"
  shows "feed m e (chunk # chunks) = update m e (concat (chunk # chunks))"
  using assms
proof (induction chunks arbitrary: e chunk)
  case Nil
  then show ?case by (simp add: update_not_finalized)
next
  case (Cons c chunks)
  obtain e1 where e1: "update m e chunk = Inr e1"
    using Cons.prems by (simp add: update_not_finalized)
  have p1: "phase e1 \<noteq> Finalized" using update_keeps_wellformed [OF e1] by simp
  have "feed m e (chunk # c # chunks) = feed m e1 (c # chunks)"
    using e1 by simp
  also have "\<dots> = update m e1 (concat (c # chunks))"
    using Cons.IH [OF p1] .
  also have "\<dots> = update m e (chunk @ concat (c # chunks))"
    using update_update [OF Cons.prems e1] .
  finally show ?case by simp
qed

lemma digest_of_update_empty:
  assumes "phase e \<noteq> Finalized" and "length (residual e) < block_size"
  shows "digest_of m (update m e []) = digest_of m (Inr e)"
  using assms
  by (simp add: update_not_finalized absorb_blocks_short digest_of_def finalize_def)

lemma digest_of_feed:
  assumes "phase e \<noteq> Finalized" and "length (residual e) < block_size"
  shows "digest_of m (feed m e chunks) = digest_of m (update m e (concat chunks))"
proof (cases chunks)
  case Nil
  then show ?thesis using digest_of_update_empty [OF assms] by simp
next
  case (Cons c cs)
  then show ?thesis using feed_nonempty [OF assms(1)] by simp
qed

lemma hash_value:
  "hash m crc_present bs seed v
     = Inr (case absorb_blocks (mix_block m v (select_path crc_present v)) (seed_lanes m v seed)
                 bs of
              (ls, r) \<Rightarrow> mix_tail m v (select_path crc_present v) ls r (length bs))"
proof -
  have wf: "phase (construct m crc_present seed v) \<noteq> Finalized"
    by (simp add: construct_def)
  show ?thesis
    unfolding hash_def update_not_finalized [OF wf]
    by (simp add: digest_of_def finalize_def construct_def case_prod_beta)
qed

text \<open>
  Claim C5. For every seed, variant and list of chunks, feeding the chunks one
  \<^verbatim>\<open>update\<close> at a time and finalizing gives the digest of a single \<^verbatim>\<open>update\<close> with their
  concatenation, which is the one-shot hash of the concatenation; and a digest it is,
  not an error.
\<close>

theorem streaming_equivalence:
  "digest_of m (feed m (construct m crc_present seed v) chunks)
     = digest_of m (update m (construct m crc_present seed v) (concat chunks))
   \<and> digest_of m (update m (construct m crc_present seed v) (concat chunks))
     = hash m crc_present (concat chunks) seed v
   \<and> hash m crc_present (concat chunks) seed v
     = Inr (case absorb_blocks (mix_block m v (select_path crc_present v)) (seed_lanes m v seed)
                 (concat chunks) of
              (ls, r) \<Rightarrow> mix_tail m v (select_path crc_present v) ls r (length (concat chunks)))"
proof -
  let ?e = "construct m crc_present seed v"
  have wf: "phase ?e \<noteq> Finalized" "length (residual ?e) < block_size"
    by (simp_all add: construct_def block_size_def)
  have 1: "digest_of m (feed m ?e chunks) = digest_of m (update m ?e (concat chunks))"
    using digest_of_feed [OF wf] .
  have 2: "digest_of m (update m ?e (concat chunks)) = hash m crc_present (concat chunks) seed v"
    by (simp add: hash_def)
  have 3: "hash m crc_present (concat chunks) seed v
     = Inr (case absorb_blocks (mix_block m v (select_path crc_present v)) (seed_lanes m v seed)
                 (concat chunks) of
              (ls, r) \<Rightarrow> mix_tail m v (select_path crc_present v) ls r (length (concat chunks)))"
    by (rule hash_value)
  show ?thesis using 1 2 3 by simp
qed

theorem streaming_equivalence_witness:
  "digest_of counting_mixing
      (feed counting_mixing (construct counting_mixing False 5 Hash64)
         [replicate 20 1, replicate 20 2]) = Inr [6]
   \<and> hash counting_mixing False (replicate 20 1 @ replicate 20 2) 5 Hash64 = Inr [6]"
proof -
  have h: "hash counting_mixing False (replicate 20 1 @ replicate 20 2) 5 Hash64 = Inr [6]"
    by (simp add: hash_def update_not_finalized construct_def digest_of_def finalize_def
        counting_mixing_def select_path_def absorb_blocks_full absorb_blocks_short
        block_size_def)
  from streaming_equivalence [of counting_mixing False 5 Hash64
      "[replicate 20 1, replicate 20 2]"] h
  show ?thesis by simp
qed

text \<open>
  Claim C6. Once an engine has been finalized, every \<^verbatim>\<open>update\<close> fails with the misuse
  error and hands back no engine, so does every feeding that starts with one; after a
  \<^verbatim>\<open>reset\<close> updates are accepted again.
\<close>

theorem update_after_finalize_fails:
  assumes "finalize m e = Inr (d, e')"
  shows "update m e' chunk = Inl UpdateAfterFinalize
       \<and> feed m e' (chunk # chunks) = Inl UpdateAfterFinalize
       \<and> phase e' = Finalized
       \<and> (\<exists>e''. update m (reset m e' new_seed) chunk = Inr e'')"
proof -
  have ph: "phase e' = Finalized"
    using assms by (auto simp: finalize_def split: if_splits)
  have up: "update m e' chunk = Inl UpdateAfterFinalize"
    using ph by (simp add: update_def)
  have "phase (reset m e' new_seed) \<noteq> Finalized" by (simp add: reset_def)
  then have "\<exists>e''. update m (reset m e' new_seed) chunk = Inr e''"
    by (simp add: update_not_finalized)
  with ph up show ?thesis by simp
qed

theorem update_after_finalize_fails_witness:
  "finalize counting_mixing (construct counting_mixing False 7 Hash64)
     = Inr ([7], (construct counting_mixing False 7 Hash64)\<lparr>phase := Finalized\<rparr>)
   \<and> update counting_mixing ((construct counting_mixing False 7 Hash64)\<lparr>phase := Finalized\<rparr>)
       [1, 2, 3] = Inl UpdateAfterFinalize"
proof -
  have f: "finalize counting_mixing (construct counting_mixing False 7 Hash64)
     = Inr ([7], (construct counting_mixing False 7 Hash64)\<lparr>phase := Finalized\<rparr>)"
    by (simp add: finalize_def construct_def counting_mixing_def)
  from update_after_finalize_fails [OF f, of "[1, 2, 3]" "[]" 0] f show ?thesis by simp
qed



end
